theory Spec2Isabelle
  imports Complex_Main "HOL-Library.AList" "HOL-Library.Sublist"
begin

section \<open>Conventions of the embedding\<close>

text \<open>
  The repository is a set of React function components. Each component keeps its state in
  \<open>useState\<close> hooks; the hooks of one component are the fields of one record here.

  A function declared inside a component closes over the state of the render that created
  it: a plain read of \<open>loading\<close>, \<open>hasMore\<close>, \<open>page\<close> or \<open>formData\<close> yields the value
  of that render, whereas a setter writes the current state, and a functional update such as
  \<open>setPage((prev) => prev + 1)\<close> reads the current state. A modelled handler therefore
  takes two states: \<open>r\<close>, the render it was created in (read only), and \<open>s\<close>, the current
  state (updated and returned). A handler called from the render that is on screen has
  \<open>r = s\<close>.

  An \<open>async\<close> function is split at its \<open>await\<close>: \<open>f_begin\<close> runs up to the
  request and returns the request it issues (\<open>None\<close> when it issues none); \<open>f_resume\<close>
  takes the outcome of the request and the state current at that moment and runs the rest,
  including \<open>catch\<close> and \<open>finally\<close>.

  Names are those of the source. The fields of a record carry a prefix that tells the
  records apart (\<open>api_id\<close>, \<open>diary_id\<close>, \<open>my_id\<close>), since several interfaces of the
  source share field names. String literals outside ASCII are given by their UTF-8 bytes.
\<close>

datatype LoadState = Idle | Loading | Exhausted

text \<open>
  The specification's LoadState is carried by two hooks, \<open>loading\<close> and \<open>hasMore\<close>.
\<close>

definition loadState :: "bool \<Rightarrow> bool \<Rightarrow> LoadState" where
  "loadState ld more = (if ld then Loading else if more then Idle else Exhausted)"

subsection \<open>What a list endpoint may answer\<close>

text \<open>
  \<open>response.data.data\<close> is untyped JSON at run time. The loaders look at it through
  truthiness, \<open>Array.isArray\<close>, the \<open>content\<close> field and the \<open>last\<close> field only, so
  these are the shapes that matter:
  \<^item> \<open>Absent\<close>: \<open>undefined\<close>, \<open>null\<close> or another falsy value;
  \<^item> \<open>BareArray xs\<close>: an array of items;
  \<^item> \<open>PageObject c l\<close>: another object, with its \<open>content\<close> field \<open>c\<close> and its
    \<open>last\<close> field \<open>l\<close> (\<open>None\<close>: the object has no key \<open>last\<close>; \<open>Some b\<close>: it has
    one, of truthiness \<open>b\<close>);
  \<^item> \<open>Scalar\<close>: a truthy number, string or \<open>true\<close>.
  The \<open>content\<close> field is missing or falsy (\<open>NoContent\<close>), an array, or some other
  truthy value (\<open>ContentOther\<close>). The items themselves are taken to be well formed.
\<close>

datatype 'a content_field = NoContent | ContentArray "'a list" | ContentOther

datatype 'a payload =
    Absent
  | BareArray "'a list"
  | PageObject "'a content_field" "bool option"
  | Scalar

text \<open>\<open>Failed\<close>: the promise of \<open>axios\<close> rejects (no answer, or a status outside 2xx).\<close>

datatype 'a fetch_result = Failed | Responded "'a payload"

definition data_truthy :: "'a payload \<Rightarrow> bool" where
  "data_truthy d = (case d of Absent \<Rightarrow> False | _ \<Rightarrow> True)"

text \<open>\<open>data.content\<close>: an array and a scalar have no such property.\<close>

definition content_of :: "'a payload \<Rightarrow> 'a content_field" where
  "content_of d = (case d of PageObject c l \<Rightarrow> c | _ \<Rightarrow> NoContent)"

text \<open>The truthiness of \<open>data.last\<close>.\<close>

definition last_truthy :: "'a payload \<Rightarrow> bool" where
  "last_truthy d = (case d of PageObject c (Some b) \<Rightarrow> b | _ \<Rightarrow> False)"

text \<open>\<open>s || undefined\<close> on a string: the empty string is falsy.\<close>

definition or_undefined :: "string \<Rightarrow> string option" where
  "or_undefined s = (if s = [] then None else Some s)"

section \<open>The diary list page (infinite scroll)\<close>

record DiaryApiResponse =
  api_id :: int
  api_title :: string
  api_playDate :: string
  api_isSuccess :: bool
  api_themeName :: string
  api_storeName :: string
  api_participants :: "string list option"
  api_content :: "string option"

record Diary =
  diary_id :: int
  diary_title :: string
  diary_date :: string
  diary_success :: bool
  diary_theme :: string
  diary_location :: string
  diary_participants :: "string list"
  diary_content :: string

record DateRange =
  range_start :: string
  range_end :: string

record FilterValues =
  filter_success :: "bool option"
  filter_dateRange :: "DateRange option"

record DiaryPage =
  searchKeyword :: string
  isFilterOpen :: bool
  activeFilters :: FilterValues
  page :: nat
  loading :: bool
  hasMore :: bool
  diaries :: "Diary list"

record DiaryListRequest =
  req_page :: nat
  req_size :: nat
  req_keyword :: "string option"
  req_isSuccess :: "bool option"
  req_startDate :: "string option"
  req_endDate :: "string option"

text \<open>The initial values of the hooks.\<close>

definition DiaryPage_init :: DiaryPage where
  "DiaryPage_init =
     \<lparr>searchKeyword = [], isFilterOpen = False,
      activeFilters = \<lparr>filter_success = None, filter_dateRange = None\<rparr>,
      page = 0, loading = False, hasMore = True, diaries = []\<rparr>"

definition convertApiToDiary :: "DiaryApiResponse \<Rightarrow> Diary" where
  "convertApiToDiary apiDiary =
     \<lparr>diary_id = api_id apiDiary,
      diary_title = api_title apiDiary,
      diary_date = api_playDate apiDiary,
      diary_success = api_isSuccess apiDiary,
      diary_theme = api_themeName apiDiary,
      diary_location = api_storeName apiDiary,
      diary_participants = (case api_participants apiDiary of None \<Rightarrow> [] | Some ps \<Rightarrow> ps),
      diary_content = (case api_content apiDiary of None \<Rightarrow> [] | Some c \<Rightarrow> c)\<rparr>"

text \<open>
  \<open>loadMoreDiaries\<close> up to its \<open>await\<close>: the guard reads \<open>loading\<close> and \<open>hasMore\<close>
  of the render \<open>r\<close>; the request is built from \<open>page\<close>, \<open>searchKeyword\<close> and
  \<open>activeFilters\<close> of that render.
\<close>

definition loadMoreDiaries_begin :: "DiaryPage \<Rightarrow> DiaryPage \<Rightarrow> DiaryPage \<times> DiaryListRequest option" where
  "loadMoreDiaries_begin r s =
     (if loading r \<or> \<not> hasMore r then (s, None)
      else (s\<lparr>loading := True\<rparr>,
            Some \<lparr>req_page = page r,
                  req_size = 12,
                  req_keyword = or_undefined (searchKeyword r),
                  req_isSuccess = filter_success (activeFilters r),
                  req_startDate =
                    (case filter_dateRange (activeFilters r) of
                       None \<Rightarrow> None | Some dr \<Rightarrow> or_undefined (range_start dr)),
                  req_endDate =
                    (case filter_dateRange (activeFilters r) of
                       None \<Rightarrow> None | Some dr \<Rightarrow> or_undefined (range_end dr))\<rparr>))"

text \<open>
  \<open>loadMoreDiaries\<close> after its \<open>await\<close>. \<open>content || []\<close> turns a missing
  \<open>content\<close> into the empty array. A \<open>content\<close> that is truthy but no array either has
  length 0 or makes \<open>.map\<close> throw; both ways only \<open>setHasMore(false)\<close> runs (in the
  branch or in \<open>catch\<close>). \<open>finally\<close> clears \<open>loading\<close> on every path.
\<close>

definition loadMoreDiaries_resume :: "DiaryApiResponse fetch_result \<Rightarrow> DiaryPage \<Rightarrow> DiaryPage" where
  "loadMoreDiaries_resume res s =
     (let s1 =
        (case res of
           Failed \<Rightarrow> s\<lparr>hasMore := False\<rparr>
         | Responded d \<Rightarrow>
             (if data_truthy d then
                (case (case content_of d of NoContent \<Rightarrow> ContentArray [] | c \<Rightarrow> c) of
                   ContentArray apiDiaries \<Rightarrow>
                     (if length apiDiaries = 0 then s\<lparr>hasMore := False\<rparr>
                      else s\<lparr>diaries := diaries s @ map convertApiToDiary apiDiaries,
                             page := page s + 1,
                             hasMore := \<not> last_truthy d\<rparr>)
                 | _ \<Rightarrow> s\<lparr>hasMore := False\<rparr>)
              else s\<lparr>hasMore := False\<rparr>))
      in s1\<lparr>loading := False\<rparr>)"

text \<open>One whole call: the guard, and the rest when a request went out.\<close>

definition loadMoreDiaries :: "DiaryApiResponse fetch_result \<Rightarrow> DiaryPage \<Rightarrow> DiaryPage \<Rightarrow> DiaryPage \<times> DiaryListRequest option" where
  "loadMoreDiaries res r s =
     (case loadMoreDiaries_begin r s of
        (s1, None) \<Rightarrow> (s1, None)
      | (s1, Some q) \<Rightarrow> (loadMoreDiaries_resume res s1, Some q))"

text \<open>The two effects that call the loader: on \<open>diaries.length\<close> and on \<open>inView\<close>.\<close>

definition effect_diaries_length :: "DiaryPage \<Rightarrow> DiaryPage \<Rightarrow> DiaryPage \<times> DiaryListRequest option" where
  "effect_diaries_length r s =
     (if length (diaries r) = 0 \<and> hasMore r then loadMoreDiaries_begin r s else (s, None))"

definition effect_inView :: "bool \<Rightarrow> DiaryPage \<Rightarrow> DiaryPage \<Rightarrow> DiaryPage \<times> DiaryListRequest option" where
  "effect_inView inView r s =
     (if inView \<and> hasMore r \<and> \<not> loading r then loadMoreDiaries_begin r s else (s, None))"

text \<open>
  The four handlers of a filter change. Each calls its setters and then
  \<open>setTimeout(loadMoreDiaries, 0)\<close>, which schedules the \<open>loadMoreDiaries\<close> of the
  handler's own render \<open>r\<close>: the second component lists the renders whose loader is
  scheduled. No handler issues a request itself.
\<close>

datatype filterType = Keyword | Success | Date

definition handleSearch :: "string \<Rightarrow> DiaryPage \<Rightarrow> DiaryPage \<Rightarrow> DiaryPage \<times> DiaryPage list" where
  "handleSearch keyword r s =
     (s\<lparr>searchKeyword := keyword, diaries := [], page := 0, hasMore := True\<rparr>, [r])"

definition handleFilterApply :: "FilterValues \<Rightarrow> DiaryPage \<Rightarrow> DiaryPage \<Rightarrow> DiaryPage \<times> DiaryPage list" where
  "handleFilterApply filters r s =
     (s\<lparr>activeFilters := filters, diaries := [], page := 0, hasMore := True\<rparr>, [r])"

definition resetAllFilters :: "DiaryPage \<Rightarrow> DiaryPage \<Rightarrow> DiaryPage \<times> DiaryPage list" where
  "resetAllFilters r s =
     (s\<lparr>searchKeyword := [],
        activeFilters := \<lparr>filter_success = None, filter_dateRange = None\<rparr>,
        diaries := [], page := 0, hasMore := True\<rparr>, [r])"

definition removeFilter :: "filterType \<Rightarrow> DiaryPage \<Rightarrow> DiaryPage \<Rightarrow> DiaryPage \<times> DiaryPage list" where
  "removeFilter ft r s =
     ((case ft of
         Keyword \<Rightarrow> s\<lparr>searchKeyword := []\<rparr>
       | Success \<Rightarrow> s\<lparr>activeFilters := (activeFilters s)\<lparr>filter_success := None\<rparr>\<rparr>
       | Date \<Rightarrow> s\<lparr>activeFilters := (activeFilters s)\<lparr>filter_dateRange := None\<rparr>\<rparr>)
        \<lparr>diaries := [], page := 0, hasMore := True\<rparr>, [r])"

text \<open>The LoadState of the diary list page.\<close>

definition DiaryPage_LoadState :: "DiaryPage \<Rightarrow> LoadState" where
  "DiaryPage_LoadState s = loadState (loading s) (hasMore s)"

text \<open>A filter change is one of the four handlers with its argument.\<close>

datatype filter_change =
    Search string
  | Apply FilterValues
  | Remove filterType
  | ResetAll

definition on_filter_change :: "filter_change \<Rightarrow> DiaryPage \<Rightarrow> DiaryPage \<Rightarrow> DiaryPage \<times> DiaryPage list" where
  "on_filter_change ev r s =
     (case ev of
        Search keyword \<Rightarrow> handleSearch keyword r s
      | Apply filters \<Rightarrow> handleFilterApply filters r s
      | Remove ft \<Rightarrow> removeFilter ft r s
      | ResetAll \<Rightarrow> resetAllFilters r s)"

section \<open>The page of the user's own diaries\<close>

text \<open>A rating is a JSON number; every finite one is a rational.\<close>

record MyDiary =
  my_id :: int
  my_themeId :: int
  my_themeName :: string
  my_storeName :: string
  my_escapeDate :: string
  my_escapeResult :: bool
  my_ratingAvg :: rat

record MyDiaryPage =
  my_diaries :: "MyDiary list"
  my_loading :: bool

definition MyDiaryPage_init :: MyDiaryPage where
  "MyDiaryPage_init = \<lparr>my_diaries = [], my_loading = True\<rparr>"

text \<open>\<open>fetchDiaries\<close> posts an empty body once, when the page mounts.\<close>

definition fetchDiaries_begin :: "MyDiaryPage \<Rightarrow> MyDiaryPage" where
  "fetchDiaries_begin s = s\<lparr>my_loading := True\<rparr>"

definition fetchDiaries_resume :: "MyDiary fetch_result \<Rightarrow> MyDiaryPage \<Rightarrow> MyDiaryPage" where
  "fetchDiaries_resume res s =
     (let s1 =
        (case res of
           Failed \<Rightarrow> s
         | Responded d \<Rightarrow>
             s\<lparr>my_diaries :=
                 (case d of
                    BareArray xs \<Rightarrow> xs
                  | PageObject (ContentArray xs) l \<Rightarrow> xs
                  | _ \<Rightarrow> [])\<rparr>)
      in s1\<lparr>my_loading := False\<rparr>)"

text \<open>
  \<open>handleDeleteDiary\<close>: \<open>confirmed\<close> is the answer to the \<open>confirm\<close> dialogue; the
  request, when one goes out, is the DELETE of that diary. After the \<open>await\<close> the list is
  filtered on success and an alert is shown either way (\<open>True\<close>: deleted, \<open>False\<close>:
  deletion failed).
\<close>

datatype DeleteRequest = DeleteDiary int

definition handleDeleteDiary_begin :: "bool \<Rightarrow> int \<Rightarrow> MyDiaryPage \<Rightarrow> MyDiaryPage \<times> DeleteRequest option" where
  "handleDeleteDiary_begin confirmed i s =
     (if \<not> confirmed then (s, None) else (s, Some (DeleteDiary i)))"

definition handleDeleteDiary_resume :: "bool \<Rightarrow> int \<Rightarrow> MyDiaryPage \<Rightarrow> MyDiaryPage \<times> bool" where
  "handleDeleteDiary_resume succeeded i s =
     (if succeeded
      then (s\<lparr>my_diaries := filter (\<lambda>diary. my_id diary \<noteq> i) (my_diaries s)\<rparr>, True)
      else (s, False))"

text \<open>
  \<open>Math.round\<close>: the nearest integer, a tie going up. \<open>renderStars\<close> yields five
  spans, keyed 0 to 4; a span is yellow (\<open>Filled\<close>) when its index is below the rounded
  rating and grey (\<open>Unfilled\<close>) otherwise.
\<close>

definition Math_round :: "rat \<Rightarrow> int" where
  "Math_round x = \<lfloor>x + 1 / 2\<rfloor>"

datatype star = Filled | Unfilled

definition renderStars :: "rat \<Rightarrow> star list" where
  "renderStars rating =
     map (\<lambda>index. if int index < Math_round rating then Filled else Unfilled) [0..<5]"

section \<open>The party list page\<close>

record PartyMainResponse =
  pm_themeId :: "int option"
  pm_themeName :: "string option"
  pm_themeThumbnailUrl :: "string option"
  pm_storeId :: "int option"
  pm_storeName :: "string option"
  pm_id :: "int option"
  pm_title :: "string option"
  pm_scheduledAt :: "string option"
  pm_acceptedParticipantCount :: "int option"
  pm_totalParticipants :: "int option"

record Host =
  host_name :: string
  host_image :: string

record EscapeRoom =
  room_id :: "string option"
  room_title :: string
  room_category :: string
  room_date :: string
  room_location :: string
  room_participants :: string
  room_image :: string
  room_host :: Host

record PartiesPage =
  parties :: "EscapeRoom list"
  parties_page :: nat
  parties_loading :: bool
  parties_hasMore :: bool
  parties_searchKeyword :: string
  filterRegion :: string

record PartySearchRequest =
  search_keyword :: string
  search_region :: string

definition PartiesPage_init :: PartiesPage where
  "PartiesPage_init =
     \<lparr>parties = [], parties_page = 1, parties_loading = False, parties_hasMore = True,
      parties_searchKeyword = [], filterRegion = []\<rparr>"

text \<open>
  What the platform supplies to this page: the date in the Korean locale, that is
  \<open>new Date(d).toLocaleString("ko-KR", ...)\<close> followed by the two \<open>replace\<close> calls of
  the source, and the exponent form that \<open>Number.prototype.toString\<close> takes from
  \<open>1e21\<close> on (its digits are the shortest that read back as the same double).
\<close>

record Formatting =
  localeDate :: "string \<Rightarrow> string"
  exponentForm :: "int \<Rightarrow> string"

text \<open>
  \<open>Number.prototype.toString\<close> on an integer: below \<open>1e21\<close> all its decimal digits, a
  minus sign first; from \<open>1e21\<close> on the exponent form.
\<close>

fun digits :: "nat \<Rightarrow> string" where
  "digits n = (if n < 10 then [char_of (48 + n)] else digits (n div 10) @ [char_of (48 + n mod 10)])"

definition toString :: "Formatting \<Rightarrow> int \<Rightarrow> string" where
  "toString fmt i =
     (if 10 ^ 21 \<le> \<bar>i\<bar> then exponentForm fmt i
      else if i < 0 then CHR ''-'' # digits (nat (- i))
      else digits (nat i))"

text \<open>\<open>x || d\<close> on an optional string and on an optional number.\<close>

definition string_or :: "string option \<Rightarrow> string \<Rightarrow> string" where
  "string_or x d = (case x of None \<Rightarrow> d | Some v \<Rightarrow> if v = [] then d else v)"

definition number_or :: "int option \<Rightarrow> int \<Rightarrow> int" where
  "number_or x d = (case x of None \<Rightarrow> d | Some v \<Rightarrow> if v = 0 then d else v)"

text \<open>The literals of \<open>convertToEscapeRoom\<close>: "no title", "host" and the counter word.\<close>

definition title_default :: string where
  "title_default = map char_of [236, 160, 156, 235, 170, 169, 32, 236, 151, 134, 236, 157, 140 :: nat]"

definition host_default :: string where
  "host_default = map char_of [235, 170, 168, 236, 158, 132, 236, 158, 165 :: nat]"

definition persons_suffix :: string where
  "persons_suffix = map char_of [235, 170, 133 :: nat]"

definition convertToEscapeRoom :: "Formatting \<Rightarrow> PartyMainResponse \<Rightarrow> EscapeRoom" where
  "convertToEscapeRoom fmt partyData =
     \<lparr>room_id = map_option (toString fmt) (pm_id partyData),
      room_title = string_or (pm_title partyData) title_default,
      room_category = string_or (pm_themeName partyData) [],
      room_date =
        (case pm_scheduledAt partyData of
           None \<Rightarrow> []
         | Some d \<Rightarrow> if d = [] then [] else localeDate fmt d),
      room_location = string_or (pm_storeName partyData) [],
      room_participants =
        toString fmt (number_or (pm_acceptedParticipantCount partyData) 0) @ ''/'' @
        toString fmt (number_or (pm_totalParticipants partyData) 0) @ persons_suffix,
      room_image = string_or (pm_themeThumbnailUrl partyData) [],
      room_host = \<lparr>host_name = host_default, host_image = ''/profile_man.jpg''\<rparr>\<rparr>"

text \<open>
  \<open>Array.from(new Map(entries).values())\<close>: a \<open>Map\<close> keeps its keys in the order of
  their first insertion, and setting a key that is present replaces its value in place.
\<close>

definition Map_values :: "('k \<times> 'v) list \<Rightarrow> 'v list" where
  "Map_values entries = map snd (fold (\<lambda>(k, v) m. AList.update k v m) entries [])"

definition loadParties_begin :: "PartiesPage \<Rightarrow> PartiesPage \<Rightarrow> PartiesPage \<times> PartySearchRequest option" where
  "loadParties_begin r s =
     (if parties_loading r then (s, None)
      else (s\<lparr>parties_loading := True\<rparr>,
            Some \<lparr>search_keyword = parties_searchKeyword r, search_region = filterRegion r\<rparr>))"

text \<open>The part of \<open>loadParties\<close> from the check for an empty \<open>partyData\<close> on.\<close>

definition loadParties_store :: "Formatting \<Rightarrow> PartyMainResponse list \<Rightarrow> PartiesPage \<Rightarrow> PartiesPage" where
  "loadParties_store fmt partyData s =
     (if length partyData = 0 then s\<lparr>parties := [], parties_hasMore := False\<rparr>
      else s\<lparr>parties :=
               Map_values (map (\<lambda>item. (room_id item, item)) (map (convertToEscapeRoom fmt) partyData))\<rparr>)"

text \<open>
  \<open>loadParties\<close> after its \<open>await\<close>. On a scalar, \<open>"content" in data\<close> throws, and
  \<open>catch\<close> makes the same two updates as the branch for an unexpected shape.
\<close>

definition loadParties_resume :: "Formatting \<Rightarrow> PartyMainResponse fetch_result \<Rightarrow> PartiesPage \<Rightarrow> PartiesPage" where
  "loadParties_resume fmt res s =
     (let s1 =
        (case res of
           Failed \<Rightarrow> s\<lparr>parties := [], parties_hasMore := False\<rparr>
         | Responded d \<Rightarrow>
             (case d of
                Absent \<Rightarrow> s\<lparr>parties := [], parties_hasMore := False\<rparr>
              | BareArray xs \<Rightarrow> loadParties_store fmt xs s
              | PageObject (ContentArray xs) l \<Rightarrow>
                  loadParties_store fmt xs
                    (case l of None \<Rightarrow> s | Some b \<Rightarrow> s\<lparr>parties_hasMore := \<not> b\<rparr>)
              | PageObject _ l \<Rightarrow> s\<lparr>parties := [], parties_hasMore := False\<rparr>
              | Scalar \<Rightarrow> s\<lparr>parties := [], parties_hasMore := False\<rparr>))
      in s1\<lparr>parties_loading := False\<rparr>)"

definition loadMoreParties :: "PartiesPage \<Rightarrow> PartiesPage" where
  "loadMoreParties s = s\<lparr>parties_hasMore := False\<rparr>"

text \<open>Search and region filter call \<open>loadParties\<close> of their own render at once.\<close>

definition parties_handleSearch :: "string \<Rightarrow> PartiesPage \<Rightarrow> PartiesPage \<Rightarrow> PartiesPage \<times> PartySearchRequest option" where
  "parties_handleSearch keyword r s =
     loadParties_begin r (s\<lparr>parties_searchKeyword := keyword, parties := [], parties_page := 1\<rparr>)"

definition handleFilterChange :: "string \<Rightarrow> string \<Rightarrow> PartiesPage \<Rightarrow> PartiesPage \<Rightarrow> PartiesPage \<times> PartySearchRequest option" where
  "handleFilterChange ft v r s =
     (if ft = ''region''
      then loadParties_begin r (s\<lparr>filterRegion := v, parties := [], parties_page := 1\<rparr>)
      else (s, None))"

definition PartiesPage_LoadState :: "PartiesPage \<Rightarrow> LoadState" where
  "PartiesPage_LoadState s = loadState (parties_loading s) (parties_hasMore s)"

section \<open>The party creation page\<close>

text \<open>
  A JavaScript number: \<open>NaN\<close>, one of the two infinities, or a finite double, which is a
  rational.
\<close>

datatype jsnum = NaN | NegInf | Num rat | PosInf

record PartyFormData =
  form_title :: string
  form_themeName :: string
  form_themeId :: jsnum
  form_date :: string
  form_time :: string
  form_participantsNeeded :: string
  form_totalParticipants :: string
  form_rookieAvailable :: bool
  form_content :: string

record PartyRequest =
  pr_themeId :: jsnum
  pr_title :: string
  pr_content :: string
  pr_scheduledAt :: string
  pr_participantsNeeded :: jsnum
  pr_totalParticipants :: jsnum
  pr_rookieAvailable :: bool

record CreatePartyPage =
  formData :: PartyFormData
  isThemeSearchModalOpen :: bool
  isTimePickerModalOpen :: bool
  isSubmitting :: bool
  error :: "string option"

text \<open>
  What the platform supplies: \<open>parseInt(string, 10)\<close> (its result is a double: long digit
  strings are rounded, and how digits after the twentieth count is left to the
  implementation), \<open>new Date(string)\<close> (the time value in milliseconds, \<open>None\<close> for an
  invalid date), \<open>new Date()\<close> and \<open>toISOString\<close>.
\<close>

record Platform =
  parseInt10 :: "string \<Rightarrow> jsnum"
  Date_parse :: "string \<Rightarrow> int option"
  Date_now :: int
  toISOString :: "int \<Rightarrow> string"

text \<open>\<open>a > b\<close> on two numbers: false as soon as one is \<open>NaN\<close>.\<close>

fun js_gt :: "jsnum \<Rightarrow> jsnum \<Rightarrow> bool" where
  "js_gt NaN b = False"
| "js_gt a NaN = False"
| "js_gt NegInf b = False"
| "js_gt a PosInf = False"
| "js_gt PosInf b = True"
| "js_gt (Num x) NegInf = True"
| "js_gt (Num x) (Num y) = (y < x)"

text \<open>\<open>!formData.themeId || formData.themeId <= 0\<close>.\<close>

definition themeId_rejected :: "jsnum \<Rightarrow> bool" where
  "themeId_rejected n =
     (case n of NaN \<Rightarrow> True | NegInf \<Rightarrow> True | Num x \<Rightarrow> x = 0 \<or> x \<le> 0 | PosInf \<Rightarrow> False)"

text \<open>
  The four messages of the validation ("choose a theme", "the needed number must not exceed
  the total", "enter date and time correctly", "date and time must lie in the future") and
  the fallback of \<open>catch\<close> ("registration failed").
\<close>

definition msg_theme :: string where
  "msg_theme = map char_of
     [237, 133, 140, 235, 167, 136, 235, 165, 188, 32, 236, 132, 160, 237, 131, 157, 237, 149,
      180, 236, 163, 188, 236, 132, 184, 236, 154, 148, 46 :: nat]"

definition msg_participants :: string where
  "msg_participants = map char_of
     [237, 149, 132, 236, 154, 148, 237, 149, 156, 32, 236, 157, 184, 236, 155, 144, 236, 157,
      128, 32, 236, 180, 157, 32, 236, 157, 184, 236, 155, 144, 235, 179, 180, 235, 139, 164, 32,
      236, 158, 145, 234, 177, 176, 235, 130, 152, 32, 234, 176, 153, 236, 149, 132, 236, 149,
      188, 32, 237, 149, 169, 235, 139, 136, 235, 139, 164, 46 :: nat]"

definition msg_datetime :: string where
  "msg_datetime = map char_of
     [235, 130, 160, 236, 167, 156, 236, 153, 128, 32, 236, 139, 156, 234, 176, 132, 236, 157,
      132, 32, 236, 152, 172, 235, 176, 148, 235, 165, 180, 234, 178, 140, 32, 236, 158, 133,
      235, 160, 165, 237, 149, 180, 236, 163, 188, 236, 132, 184, 236, 154, 148, 46 :: nat]"

definition msg_future :: string where
  "msg_future = map char_of
     [235, 170, 168, 236, 158, 132, 32, 235, 130, 160, 236, 167, 156, 236, 153, 128, 32, 236,
      139, 156, 234, 176, 132, 236, 157, 128, 32, 237, 152, 132, 236, 158, 172, 32, 235, 152,
      144, 235, 138, 148, 32, 235, 175, 184, 235, 158, 152, 236, 157, 152, 32, 236, 139, 156,
      234, 176, 132, 236, 157, 180, 236, 150, 180, 236, 149, 188, 32, 237, 149, 169, 235, 139,
      136, 235, 139, 164, 46 :: nat]"

definition msg_failed :: string where
  "msg_failed = map char_of
     [235, 170, 168, 236, 158, 132, 32, 235, 147, 177, 235, 161, 157, 236, 151, 144, 32, 236,
      139, 164, 237, 140, 168, 237, 150, 136, 236, 138, 181, 235, 139, 136, 235, 139, 164,
      46 :: nat]"

text \<open>
  \<open>handleSubmit\<close> up to its \<open>await\<close>. A failed check throws; \<open>catch\<close> stores the
  message of the error and \<open>finally\<close> clears \<open>isSubmitting\<close>, so that path ends without
  a request. The form is read from the render \<open>r\<close> and never written.
\<close>

definition submit_rejected :: "string \<Rightarrow> CreatePartyPage \<Rightarrow> CreatePartyPage \<times> PartyRequest option" where
  "submit_rejected msg s = (s\<lparr>isSubmitting := False, error := Some msg\<rparr>, None)"

definition handleSubmit_begin :: "Platform \<Rightarrow> CreatePartyPage \<Rightarrow> CreatePartyPage \<Rightarrow> CreatePartyPage \<times> PartyRequest option" where
  "handleSubmit_begin env r s =
     (if themeId_rejected (form_themeId (formData r)) then submit_rejected msg_theme s
      else
        let participantsNeeded = parseInt10 env (form_participantsNeeded (formData r));
            totalParticipants = parseInt10 env (form_totalParticipants (formData r))
        in if js_gt participantsNeeded totalParticipants then submit_rejected msg_participants s
           else
             (case Date_parse env (form_date (formData r) @ ''T'' @ form_time (formData r)) of
                None \<Rightarrow> submit_rejected msg_datetime s
              | Some scheduledDateTime \<Rightarrow>
                  if scheduledDateTime \<le> Date_now env then submit_rejected msg_future s
                  else
                    (s\<lparr>isSubmitting := True, error := None\<rparr>,
                     Some \<lparr>pr_themeId = form_themeId (formData r),
                           pr_title = form_title (formData r),
                           pr_content = form_content (formData r),
                           pr_scheduledAt = toISOString env scheduledDateTime,
                           pr_participantsNeeded = participantsNeeded,
                           pr_totalParticipants = totalParticipants,
                           pr_rookieAvailable = form_rookieAvailable (formData r)\<rparr>)))"

text \<open>
  How the \<open>await\<close> of the POST ends:
  \<^item> \<open>Created i\<close>: an answer in 2xx with a body; \<open>i\<close> is the \<open>id\<close> in its \<open>data\<close>,
    when there is one;
  \<^item> \<open>Refused m\<close>: an error answer with a body; \<open>m\<close> is its \<open>message\<close>, when there is
    one;
  \<^item> \<open>RefusedNoBody\<close>: an error answer whose body is \<open>null\<close>: reading
    \<open>err.response.data.message\<close> throws inside \<open>catch\<close>, before \<open>setError\<close> is called;
  \<^item> \<open>Thrown m\<close>: any other error, with its message (no answer at all, or an answer in
    2xx without a body, on which \<open>response.data.data\<close> throws).
  The handler ends by pushing a route, by showing an error, or with an exception that
  nothing catches; \<open>finally\<close> clears \<open>isSubmitting\<close> each time.
\<close>

datatype post_result = Created "int option" | Refused "string option" | RefusedNoBody | Thrown string

datatype route = PartyDetail int | PartyList

datatype submit_end = Pushed route | ErrorShown | Uncaught

definition handleSubmit_resume :: "post_result \<Rightarrow> CreatePartyPage \<Rightarrow> CreatePartyPage \<times> submit_end" where
  "handleSubmit_resume res s =
     (case res of
        Created i \<Rightarrow>
          (s\<lparr>isSubmitting := False\<rparr>,
           Pushed (case i of None \<Rightarrow> PartyList | Some n \<Rightarrow> if n = 0 then PartyList else PartyDetail n))
      | Refused m \<Rightarrow> (s\<lparr>error := Some (string_or m msg_failed), isSubmitting := False\<rparr>, ErrorShown)
      | RefusedNoBody \<Rightarrow> (s\<lparr>isSubmitting := False\<rparr>, Uncaught)
      | Thrown m \<Rightarrow> (s\<lparr>error := Some m, isSubmitting := False\<rparr>, ErrorShown))"

section \<open>Sample data and auxiliary notions for the properties\<close>

text \<open>
  The items a response carries for \<open>loadMoreDiaries\<close>: the \<open>content\<close> array of a page
  object, nothing otherwise.
\<close>

definition page_items :: "'a payload \<Rightarrow> 'a list" where
  "page_items d = (case d of PageObject (ContentArray xs) l \<Rightarrow> xs | _ \<Rightarrow> [])"

text \<open>A response in the page shape: items and the \<open>last\<close> flag.\<close>

definition page_response :: "'a list \<Rightarrow> bool \<Rightarrow> 'a fetch_result" where
  "page_response xs lst = Responded (PageObject (ContentArray xs) (Some lst))"

text \<open>Sample data for the concrete runs below.\<close>

definition sample_api_diary :: "int \<Rightarrow> DiaryApiResponse" where
  "sample_api_diary i =
     \<lparr>api_id = i, api_title = ''t'', api_playDate = ''2025-04-01'', api_isSuccess = True,
      api_themeName = ''theme'', api_storeName = ''store'',
      api_participants = None, api_content = None\<rparr>"

definition sample_my_diary :: "int \<Rightarrow> MyDiary" where
  "sample_my_diary i =
     \<lparr>my_id = i, my_themeId = 1, my_themeName = ''theme'', my_storeName = ''store'',
      my_escapeDate = ''2025-04-01'', my_escapeResult = True, my_ratingAvg = 7 / 2\<rparr>"

text \<open>
  A \<open>data\<close> field in neither of the two shapes: absent, a scalar, or an object whose
  \<open>content\<close> is no array.
\<close>

definition neither_shape :: "'a payload \<Rightarrow> bool" where
  "neither_shape d =
     (case d of
        BareArray xs \<Rightarrow> False
      | PageObject (ContentArray xs) l \<Rightarrow> False
      | _ \<Rightarrow> True)"

text \<open>The party list page after a load that found nothing.\<close>

definition exhausted_parties :: PartiesPage where
  "exhausted_parties = PartiesPage_init\<lparr>parties_hasMore := False\<rparr>"

definition sample_party :: "int \<Rightarrow> PartyMainResponse" where
  "sample_party i =
     \<lparr>pm_themeId = Some 1, pm_themeName = Some ''theme'', pm_themeThumbnailUrl = None,
      pm_storeId = Some 1, pm_storeName = Some ''store'', pm_id = Some i, pm_title = None,
      pm_scheduledAt = None, pm_acceptedParticipantCount = Some 2,
      pm_totalParticipants = Some 4\<rparr>"

text \<open>A formatting that leaves a date as it is.\<close>

definition sample_formatting :: Formatting where
  "sample_formatting = \<lparr>localeDate = (\<lambda>d. d), exponentForm = (\<lambda>i. [])\<rparr>"

text \<open>
  A platform given by tables: what \<open>parseInt(string, 10)\<close> returns on six strings (on
  \<open>9007199254740993\<close>, which is \<open>2 ^ 53 + 1\<close>, the nearest double \<open>2 ^ 53\<close>; on
  \<open>1e3\<close> the digits before the letter), what \<open>new Date\<close> returns on two, and a form
  that passes every check on it.
\<close>

definition sample_platform :: Platform where
  "sample_platform =
     \<lparr>parseInt10 = (\<lambda>str. if str = ''2'' then Num 2
                          else if str = ''4'' then Num 4
                          else if str = ''5'' then Num 5
                          else if str = ''1e3'' then Num 1
                          else if str = ''9007199254740992'' then Num 9007199254740992
                          else if str = ''9007199254740993'' then Num 9007199254740992
                          else NaN),
      Date_parse = (\<lambda>str. if str = ''2030-01-01T10:00'' then Some 1893492000000
                          else if str = ''2020-01-01T10:00'' then Some 1577872800000 else None),
      Date_now = 1762000000000,
      toISOString = (\<lambda>t. if t = 1893492000000 then ''2030-01-01T10:00:00.000Z'' else [])\<rparr>"

text \<open>The natural number that a string of decimal digits denotes.\<close>

definition decimal_value :: "string \<Rightarrow> nat" where
  "decimal_value ds = foldl (\<lambda>a c. 10 * a + (of_char c - 48)) 0 ds"

definition sample_form :: PartyFormData where
  "sample_form =
     \<lparr>form_title = ''title'', form_themeName = ''theme'', form_themeId = Num 3,
      form_date = ''2030-01-01'', form_time = ''10:00'',
      form_participantsNeeded = ''2'', form_totalParticipants = ''4'',
      form_rookieAvailable = False, form_content = ''content''\<rparr>"

definition sample_create :: "PartyFormData \<Rightarrow> CreatePartyPage" where
  "sample_create f =
     \<lparr>formData = f, isThemeSearchModalOpen = False, isTimePickerModalOpen = False,
      isSubmitting = False, error = None\<rparr>"

section \<open>Properties of the diary list loader\<close>

lemma loadMoreDiaries_resume_page_array:
  "loadMoreDiaries_resume (Responded (PageObject (ContentArray xs) l)) s =
     (if xs = [] then s\<lparr>hasMore := False, loading := False\<rparr>
      else s\<lparr>diaries := diaries s @ map convertApiToDiary xs,
             page := page s + 1,
             hasMore := \<not> (case l of None \<Rightarrow> False | Some b \<Rightarrow> b),
             loading := False\<rparr>)"
  by (simp add: loadMoreDiaries_resume_def Let_def data_truthy_def content_of_def
      last_truthy_def split: option.splits)

text \<open>
  C3. When the page fetch fails (transport or server error), the loader ends in LoadState
  Exhausted and the items accumulated before the failure, and the page cursor, are as
  they were: only \<open>hasMore\<close> and \<open>loading\<close> are written. The same holds of a whole call,
  whichever render it is made from.
\<close>

theorem loadMoreDiaries_failure_keeps_items:
  "DiaryPage_LoadState (loadMoreDiaries_resume Failed s) = Exhausted
   \<and> diaries (loadMoreDiaries_resume Failed s) = diaries s
   \<and> page (loadMoreDiaries_resume Failed s) = page s
   \<and> loadMoreDiaries_resume Failed s = s\<lparr>hasMore := False, loading := False\<rparr>
   \<and> diaries (fst (loadMoreDiaries Failed r s)) = diaries s"
proof -
  have eq: "loadMoreDiaries_resume Failed s' = s'\<lparr>hasMore := False, loading := False\<rparr>" for s'
    by (simp add: loadMoreDiaries_resume_def)
  have whole: "diaries (fst (loadMoreDiaries Failed r s)) = diaries s"
    by (cases "loading r \<or> \<not> hasMore r")
       (simp_all add: loadMoreDiaries_def loadMoreDiaries_begin_def eq)
  show ?thesis
    by (simp add: eq whole DiaryPage_LoadState_def loadState_def)
qed

lemma loadMoreDiaries_resume_diaries:
  "diaries (loadMoreDiaries_resume (Responded d) s) = diaries s @ map convertApiToDiary (page_items d)"
  by (cases d rule: payload.exhaust)
     (auto simp: loadMoreDiaries_resume_def Let_def data_truthy_def content_of_def page_items_def
       split: content_field.splits)

lemma diary_id_convertApiToDiary: "diary_id (convertApiToDiary x) = api_id x"
  by (simp add: convertApiToDiary_def)

lemma diary_id_convert: "map diary_id (map convertApiToDiary xs) = map api_id xs"
  by (simp add: diary_id_convertApiToDiary)

text \<open>
  C4. A successful response in the page shape: an empty page (or none) leaves items and page
  cursor as they were and ends Exhausted; a page with items appends them after the
  accumulated ones, advances the cursor by exactly 1, and ends Exhausted exactly when the
  \<open>last\<close> flag is true, Idle otherwise. From the initial state, 12 items with
  \<open>last: false\<close> and then 5 items with \<open>last: true\<close> give requests for pages 0 and 1,
  17 items, cursor 2 and Exhausted, and a further call issues no request.
\<close>

theorem loadMoreDiaries_page_outcome:
  "(c = NoContent \<or> c = ContentArray [] \<longrightarrow>
      DiaryPage_LoadState (loadMoreDiaries_resume (Responded (PageObject c l)) s) = Exhausted
      \<and> diaries (loadMoreDiaries_resume (Responded (PageObject c l)) s) = diaries s
      \<and> page (loadMoreDiaries_resume (Responded (PageObject c l)) s) = page s)
   \<and> (xs \<noteq> [] \<longrightarrow>
      diaries (loadMoreDiaries_resume (page_response xs lst) s) = diaries s @ map convertApiToDiary xs
      \<and> page (loadMoreDiaries_resume (page_response xs lst) s) = page s + 1
      \<and> ((DiaryPage_LoadState (loadMoreDiaries_resume (page_response xs lst) s) = Exhausted) = lst)
      \<and> DiaryPage_LoadState (loadMoreDiaries_resume (page_response xs lst) s) =
          (if lst then Exhausted else Idle))
   \<and> (length xs = 12 \<and> length ys = 5 \<longrightarrow>
      (case loadMoreDiaries (page_response xs False) DiaryPage_init DiaryPage_init of
         (s1, q1) \<Rightarrow>
           map_option req_page q1 = Some 0
           \<and> length (diaries s1) = 12 \<and> page s1 = 1 \<and> DiaryPage_LoadState s1 = Idle
           \<and> (case loadMoreDiaries (page_response ys True) s1 s1 of
                 (s2, q2) \<Rightarrow>
                   map_option req_page q2 = Some 1
                   \<and> diaries s2 = map convertApiToDiary (xs @ ys)
                   \<and> length (diaries s2) = 17 \<and> page s2 = 2
                   \<and> DiaryPage_LoadState s2 = Exhausted
                   \<and> loadMoreDiaries_begin s2 s2 = (s2, None))))"
proof -
  have empty: "DiaryPage_LoadState (loadMoreDiaries_resume (Responded (PageObject c l)) s) = Exhausted
      \<and> diaries (loadMoreDiaries_resume (Responded (PageObject c l)) s) = diaries s
      \<and> page (loadMoreDiaries_resume (Responded (PageObject c l)) s) = page s"
    if "c = NoContent \<or> c = ContentArray []"
    using that
    by (auto simp: loadMoreDiaries_resume_def Let_def data_truthy_def content_of_def
        DiaryPage_LoadState_def loadState_def)
  have items: "diaries (loadMoreDiaries_resume (page_response xs lst) s) = diaries s @ map convertApiToDiary xs
      \<and> page (loadMoreDiaries_resume (page_response xs lst) s) = page s + 1
      \<and> ((DiaryPage_LoadState (loadMoreDiaries_resume (page_response xs lst) s) = Exhausted) = lst)
      \<and> DiaryPage_LoadState (loadMoreDiaries_resume (page_response xs lst) s) =
          (if lst then Exhausted else Idle)"
    if ne: "xs \<noteq> []"
  proof -
    have eq: "loadMoreDiaries_resume (page_response xs lst) s =
        s\<lparr>diaries := diaries s @ map convertApiToDiary xs, page := page s + 1,
          hasMore := \<not> lst, loading := False\<rparr>"
      using ne by (simp add: page_response_def loadMoreDiaries_resume_page_array)
    show ?thesis
      by (simp add: eq DiaryPage_LoadState_def loadState_def)
  qed
  have run: "case loadMoreDiaries (page_response xs False) DiaryPage_init DiaryPage_init of
         (s1, q1) \<Rightarrow>
           map_option req_page q1 = Some 0
           \<and> length (diaries s1) = 12 \<and> page s1 = 1 \<and> DiaryPage_LoadState s1 = Idle
           \<and> (case loadMoreDiaries (page_response ys True) s1 s1 of
                 (s2, q2) \<Rightarrow>
                   map_option req_page q2 = Some 1
                   \<and> diaries s2 = map convertApiToDiary (xs @ ys)
                   \<and> length (diaries s2) = 17 \<and> page s2 = 2
                   \<and> DiaryPage_LoadState s2 = Exhausted
                   \<and> loadMoreDiaries_begin s2 s2 = (s2, None))"
    if len: "length xs = 12 \<and> length ys = 5"
  proof -
    from len have ne: "xs \<noteq> []" "ys \<noteq> []" by auto
    show ?thesis
      using len ne
      by (simp add: loadMoreDiaries_def loadMoreDiaries_begin_def DiaryPage_init_def
          page_response_def loadMoreDiaries_resume_page_array DiaryPage_LoadState_def loadState_def)
  qed
  from empty items run show ?thesis by blast
qed

theorem loadMoreDiaries_page_outcome_witness:
  "DiaryPage_LoadState (loadMoreDiaries_resume (Responded (PageObject (ContentArray []) (Some False))) DiaryPage_init) = Exhausted
   \<and> map sample_api_diary [1..12] \<noteq> []
   \<and> length (map sample_api_diary [1..12]) = 12 \<and> length (map sample_api_diary [13..17]) = 5
   \<and> map diary_id (diaries (loadMoreDiaries_resume (page_response (map sample_api_diary [1..12]) True) DiaryPage_init)) = [1..12]
   \<and> page (loadMoreDiaries_resume (page_response (map sample_api_diary [1..12]) True) DiaryPage_init) = 1
   \<and> DiaryPage_LoadState (loadMoreDiaries_resume (page_response (map sample_api_diary [1..12]) True) DiaryPage_init) = Exhausted
   \<and> map diary_id (diaries (fst (loadMoreDiaries (page_response (map sample_api_diary [13..17]) True)
        (fst (loadMoreDiaries (page_response (map sample_api_diary [1..12]) False) DiaryPage_init DiaryPage_init))
        (fst (loadMoreDiaries (page_response (map sample_api_diary [1..12]) False) DiaryPage_init DiaryPage_init)))))
      = [1..17]"
proof -
  have l: "length (map sample_api_diary [1..12]) = 12 \<and> length (map sample_api_diary [13..17]) = 5"
    by simp
  have n: "map sample_api_diary [1..12] \<noteq> []"
    using l by fastforce
  have u: "[1..12] @ [13..17] = [1..17]"
    by (simp add: upto_rec1)
  have i: "map diary_id (map convertApiToDiary (map sample_api_diary js)) = js" for js
    by (simp add: diary_id_convertApiToDiary sample_api_diary_def comp_def)
  note t = loadMoreDiaries_page_outcome
    [where c = "ContentArray []" and l = "Some False" and s = DiaryPage_init
       and xs = "map sample_api_diary [1..12]" and lst = True
       and ys = "map sample_api_diary [13..17]"]
  have a: "DiaryPage_LoadState (loadMoreDiaries_resume (Responded (PageObject (ContentArray []) (Some False))) DiaryPage_init) = Exhausted"
    using t [THEN conjunct1] by simp
  have b: "diaries (loadMoreDiaries_resume (page_response (map sample_api_diary [1..12]) True) DiaryPage_init)
        = diaries DiaryPage_init @ map convertApiToDiary (map sample_api_diary [1..12])
     \<and> page (loadMoreDiaries_resume (page_response (map sample_api_diary [1..12]) True) DiaryPage_init) = page DiaryPage_init + 1
     \<and> DiaryPage_LoadState (loadMoreDiaries_resume (page_response (map sample_api_diary [1..12]) True) DiaryPage_init) = Exhausted"
    using t [THEN conjunct2, THEN conjunct1, THEN mp, OF n] by simp
  note t [THEN conjunct2, THEN conjunct2, THEN mp, OF l]
  then have c: "diaries (fst (loadMoreDiaries (page_response (map sample_api_diary [13..17]) True)
        (fst (loadMoreDiaries (page_response (map sample_api_diary [1..12]) False) DiaryPage_init DiaryPage_init))
        (fst (loadMoreDiaries (page_response (map sample_api_diary [1..12]) False) DiaryPage_init DiaryPage_init))))
      = map convertApiToDiary (map sample_api_diary [1..12] @ map sample_api_diary [13..17])"
    by (auto split: prod.splits)
  have d: "map diary_id (map convertApiToDiary (map sample_api_diary [1..12] @ map sample_api_diary [13..17])) = [1..17]"
    unfolding map_append [symmetric] u by (rule i)
  have e: "diaries DiaryPage_init = [] \<and> page DiaryPage_init = 0"
    by (simp add: DiaryPage_init_def)
  show ?thesis
    using a b c d l n e i [of "[1..12]"] by simp
qed

text \<open>
  C1. The accumulated list is meant to hold every identifier once, the first occurrence
  winning, and the list is rendered with \<open>key={diary.id}\<close>. \<open>loadMoreDiaries\<close> does not
  do that: it appends the fetched page as it is. Evaluated from the initial hooks on two
  answered fetches whose pages both hold the item with identifier 1, each call passing the
  guard of the render on screen, it leaves that identifier twice in the list.
\<close>

theorem loadMoreDiaries_keeps_duplicate_identifier:
  "map diary_id (diaries (fst (loadMoreDiaries (page_response [sample_api_diary 1] False)
      (fst (loadMoreDiaries (page_response [sample_api_diary 1] False) DiaryPage_init DiaryPage_init))
      (fst (loadMoreDiaries (page_response [sample_api_diary 1] False) DiaryPage_init DiaryPage_init)))))
     = [1, 1]
   \<and> \<not> distinct (map diary_id (diaries (fst (loadMoreDiaries (page_response [sample_api_diary 1] False)
      (fst (loadMoreDiaries (page_response [sample_api_diary 1] False) DiaryPage_init DiaryPage_init))
      (fst (loadMoreDiaries (page_response [sample_api_diary 1] False) DiaryPage_init DiaryPage_init))))))"
  by (simp add: loadMoreDiaries_def loadMoreDiaries_begin_def DiaryPage_init_def
      page_response_def loadMoreDiaries_resume_page_array convertApiToDiary_def sample_api_diary_def)

text \<open>
  C5. Each of the four filter-change handlers leaves the page cursor at 0, the accumulated
  list empty and \<open>hasMore\<close> set (LoadState Idle, or Loading while a fetch is still in
  flight, never Exhausted), and issues no request itself: it only schedules the loader. So
  whenever the scheduled loader starts, whatever render it belongs to, the state it starts
  from is the reset one.
\<close>

theorem filter_change_resets_before_request:
  "page (fst (on_filter_change ev r s)) = 0
   \<and> diaries (fst (on_filter_change ev r s)) = []
   \<and> hasMore (fst (on_filter_change ev r s))
   \<and> DiaryPage_LoadState (fst (on_filter_change ev r s)) = (if loading s then Loading else Idle)
   \<and> DiaryPage_LoadState (fst (on_filter_change ev r s)) \<noteq> Exhausted
   \<and> snd (on_filter_change ev r s) = [r]
   \<and> page (fst (loadMoreDiaries_begin r' (fst (on_filter_change ev r s)))) = 0
   \<and> diaries (fst (loadMoreDiaries_begin r' (fst (on_filter_change ev r s)))) = []
   \<and> hasMore (fst (loadMoreDiaries_begin r' (fst (on_filter_change ev r s))))"
  by (cases ev; cases "loading r' \<or> \<not> hasMore r'")
     (auto simp: on_filter_change_def handleSearch_def handleFilterApply_def removeFilter_def
       resetAllFilters_def loadMoreDiaries_begin_def DiaryPage_LoadState_def loadState_def
       split: filterType.splits)

section \<open>Properties of the page of the user's own diaries\<close>

lemma upt5: "[0..<5] = [0, 1, 2, 3, 4]"
  by (simp add: upt_rec)

lemma renderStars_prefix:
  "renderStars r =
     replicate (nat (max 0 (min 5 (Math_round r)))) Filled @
     replicate (5 - nat (max 0 (min 5 (Math_round r)))) Unfilled"
proof -
  consider "Math_round r \<le> 0" | "Math_round r = 1" | "Math_round r = 2" | "Math_round r = 3"
    | "Math_round r = 4" | "5 \<le> Math_round r"
    by linarith
  then show ?thesis
    by cases (simp_all add: renderStars_def upt5 numeral_eq_Suc)
qed

lemma Math_round_nearest: "\<bar>r - of_int (Math_round r)\<bar> \<le> \<bar>r - of_int k\<bar>"
  unfolding Math_round_def by (metis round_def round_diff_minimal)

lemma Math_round_clamp:
  "max 0 (min 5 (Math_round r)) = (if r < 0 then 0 else if 5 < r then 5 else Math_round r)"
  unfolding Math_round_def by (auto simp: max_def min_def; linarith)

text \<open>
  C9. For every rating, \<open>renderStars\<close> yields exactly five stars, the filled ones first;
  their number is the rating rounded to the nearest integer and clamped to the range from
  0 to 5: none below 0, five above 5.
\<close>

theorem renderStars_fill_count:
  "length (renderStars r) = 5
   \<and> length (filter (\<lambda>x. x = Filled) (renderStars r)) = nat (max 0 (min 5 (Math_round r)))
   \<and> renderStars r =
       replicate (nat (max 0 (min 5 (Math_round r)))) Filled @
       replicate (5 - nat (max 0 (min 5 (Math_round r)))) Unfilled
   \<and> (\<forall>k. \<bar>r - of_int (Math_round r)\<bar> \<le> \<bar>r - of_int k\<bar>)
   \<and> length (filter (\<lambda>x. x = Filled) (renderStars r)) =
       (if r < 0 then 0 else if 5 < r then 5 else nat (Math_round r))"
proof -
  let ?k = "nat (max 0 (min 5 (Math_round r)))"
  have k5: "?k \<le> 5" by simp
  have shape: "renderStars r = replicate ?k Filled @ replicate (5 - ?k) Unfilled"
    by (rule renderStars_prefix)
  have len: "length (renderStars r) = 5"
    by (simp add: renderStars_def)
  have cnt: "length (filter (\<lambda>x. x = Filled) (renderStars r)) = ?k"
    unfolding shape by simp
  have clamp: "?k = (if r < 0 then 0 else if 5 < r then 5 else nat (Math_round r))"
    by (simp add: Math_round_clamp)
  have near: "\<forall>k. \<bar>r - of_int (Math_round r)\<bar> \<le> \<bar>r - of_int k\<bar>"
    by (simp add: Math_round_nearest)
  have cnt2: "length (filter (\<lambda>x. x = Filled) (renderStars r)) =
       (if r < 0 then 0 else if 5 < r then 5 else nat (Math_round r))"
    using cnt clamp by simp
  from len cnt shape near cnt2 show ?thesis
    by (intro conjI)
qed

lemma count_list_filter:
  "count_list (filter P xs) x = (if P x then count_list xs x else 0)"
  by (induction xs) auto

text \<open>
  C7. A successful delete removes exactly the items with the deleted identifier: what is
  left is a subsequence of the list, every other item occurs as often as before, and
  nothing but the list changes; no list request is part of the handler. When the
  identifier is not in the list, and when the delete fails, the state is as it was. The
  only request is the DELETE, and none is sent when the user does not confirm.
\<close>

theorem handleDeleteDiary_removes_exactly:
  "my_diaries (fst (handleDeleteDiary_resume True i s)) = filter (\<lambda>d. my_id d \<noteq> i) (my_diaries s)
   \<and> subseq (my_diaries (fst (handleDeleteDiary_resume True i s))) (my_diaries s)
   \<and> (\<forall>d. count_list (my_diaries (fst (handleDeleteDiary_resume True i s))) d =
          (if my_id d = i then 0 else count_list (my_diaries s) d))
   \<and> my_loading (fst (handleDeleteDiary_resume True i s)) = my_loading s
   \<and> (i \<notin> my_id ` set (my_diaries s) \<longrightarrow> fst (handleDeleteDiary_resume True i s) = s)
   \<and> fst (handleDeleteDiary_resume False i s) = s
   \<and> handleDeleteDiary_begin True i s = (s, Some (DeleteDiary i))
   \<and> handleDeleteDiary_begin False i s = (s, None)"
proof -
  have eq: "my_diaries (fst (handleDeleteDiary_resume True i s)) = filter (\<lambda>d. my_id d \<noteq> i) (my_diaries s)"
    by (simp add: handleDeleteDiary_resume_def)
  have sub: "subseq (my_diaries (fst (handleDeleteDiary_resume True i s))) (my_diaries s)"
    unfolding eq by simp
  have cnt: "count_list (my_diaries (fst (handleDeleteDiary_resume True i s))) d =
          (if my_id d = i then 0 else count_list (my_diaries s) d)" for d
    unfolding eq by (simp add: count_list_filter)
  have ld: "my_loading (fst (handleDeleteDiary_resume True i s)) = my_loading s"
    by (simp add: handleDeleteDiary_resume_def)
  have absent: "fst (handleDeleteDiary_resume True i s) = s" if "i \<notin> my_id ` set (my_diaries s)"
  proof -
    from that have "filter (\<lambda>d. my_id d \<noteq> i) (my_diaries s) = my_diaries s"
      by (auto simp: filter_id_conv)
    then show ?thesis by (simp add: handleDeleteDiary_resume_def)
  qed
  have failed: "fst (handleDeleteDiary_resume False i s) = s"
    by (simp add: handleDeleteDiary_resume_def)
  have b: "handleDeleteDiary_begin True i s = (s, Some (DeleteDiary i))"
     "handleDeleteDiary_begin False i s = (s, None)"
    by (simp_all add: handleDeleteDiary_begin_def)
  show ?thesis
    using eq sub cnt ld absent failed b by blast
qed

theorem handleDeleteDiary_removes_exactly_witness:
  "map my_id (my_diaries (fst (handleDeleteDiary_resume True 2
      \<lparr>my_diaries = map sample_my_diary [1, 2, 3, 2], my_loading = False\<rparr>))) = [1, 3]
   \<and> 9 \<notin> my_id ` set (my_diaries \<lparr>my_diaries = map sample_my_diary [1, 2, 3, 2], my_loading = False\<rparr>)
   \<and> fst (handleDeleteDiary_resume True 9
        \<lparr>my_diaries = map sample_my_diary [1, 2, 3, 2], my_loading = False\<rparr>) =
      \<lparr>my_diaries = map sample_my_diary [1, 2, 3, 2], my_loading = False\<rparr>"
proof -
  have h: "9 \<notin> my_id ` set (my_diaries \<lparr>my_diaries = map sample_my_diary [1, 2, 3, 2], my_loading = False\<rparr>)"
    by (simp add: sample_my_diary_def)
  note t = handleDeleteDiary_removes_exactly
    [of _ "\<lparr>my_diaries = map sample_my_diary [1, 2, 3, 2], my_loading = False\<rparr>"]
  have a: "map my_id (my_diaries (fst (handleDeleteDiary_resume True 2
      \<lparr>my_diaries = map sample_my_diary [1, 2, 3, 2], my_loading = False\<rparr>))) = [1, 3]"
    using t [of 2, THEN conjunct1] by (simp add: sample_my_diary_def)
  have b: "fst (handleDeleteDiary_resume True 9
        \<lparr>my_diaries = map sample_my_diary [1, 2, 3, 2], my_loading = False\<rparr>) =
      \<lparr>my_diaries = map sample_my_diary [1, 2, 3, 2], my_loading = False\<rparr>"
    using t [of 9] h by blast
  from a h b show ?thesis by (intro conjI)
qed

section \<open>Properties of the guards and of the answers the loaders accept\<close>

lemma update_fresh: "k \<notin> fst ` set m \<Longrightarrow> AList.update k v m = m @ [(k, v)]"
  by (induction m) auto

lemma fold_update_distinct:
  "distinct (map fst (m @ es)) \<Longrightarrow> fold (\<lambda>(k, v) m. AList.update k v m) es m = m @ es"
proof (induction es arbitrary: m)
  case Nil
  show ?case by simp
next
  case (Cons e es)
  obtain k v where e: "e = (k, v)" by (cases e)
  from Cons.prems have fresh: "k \<notin> fst ` set m"
    by (auto simp: e)
  from Cons.prems have "distinct (map fst ((m @ [(k, v)]) @ es))"
    by (auto simp: e)
  then have "fold (\<lambda>(k, v) m. AList.update k v m) es (m @ [(k, v)]) = (m @ [(k, v)]) @ es"
    by (rule Cons.IH)
  then show ?case
    by (simp add: e update_fresh [OF fresh])
qed

lemma Map_values_distinct: "distinct (map fst es) \<Longrightarrow> Map_values es = map snd es"
  using fold_update_distinct [of "[]" es] by (simp add: Map_values_def)

lemma loadParties_store_distinct:
  assumes "distinct (map (room_id \<circ> convertToEscapeRoom fmt) ps)"
  shows "parties (loadParties_store fmt ps p) = map (convertToEscapeRoom fmt) ps"
proof (cases "ps = []")
  case True
  then show ?thesis by (simp add: loadParties_store_def)
next
  case False
  have "map fst (map (\<lambda>item. (room_id item, item)) (map (convertToEscapeRoom fmt) ps)) =
        map (room_id \<circ> convertToEscapeRoom fmt) ps"
    by (simp add: comp_def)
  with assms have "Map_values (map (\<lambda>item. (room_id item, item)) (map (convertToEscapeRoom fmt) ps)) =
      map snd (map (\<lambda>item. (room_id item, item)) (map (convertToEscapeRoom fmt) ps))"
    by (intro Map_values_distinct) (simp add: comp_def)
  then show ?thesis
    using False by (simp add: loadParties_store_def comp_def)
qed

text \<open>
  The sibling loader does remove duplicate identifiers: whatever the answer, no two
  entries of the party list share one.
\<close>

lemma fold_update_keys_distinct:
  "distinct (map fst m) \<Longrightarrow> distinct (map fst (fold (\<lambda>(k, v) m. AList.update k v m) es m))"
proof (induction es arbitrary: m)
  case Nil
  then show ?case by simp
next
  case (Cons e es)
  obtain k v where e: "e = (k, v)" by (cases e)
  from Cons.prems have "distinct (map fst (AList.update k v m))"
    by (rule distinct_update)
  then have "distinct (map fst (fold (\<lambda>(k, v) m. AList.update k v m) es (AList.update k v m)))"
    by (rule Cons.IH)
  then show ?case
    by (simp add: e)
qed

lemma set_update_subset: "set (AList.update k v m) \<subseteq> insert (k, v) (set m)"
  by (induction m) auto

lemma fold_update_keyed:
  assumes "\<And>p. p \<in> set m \<Longrightarrow> fst p = key (snd p)"
    and "\<And>p. p \<in> set es \<Longrightarrow> fst p = key (snd p)"
  shows "p \<in> set (fold (\<lambda>(k, v) m. AList.update k v m) es m) \<Longrightarrow> fst p = key (snd p)"
  using assms
proof (induction es arbitrary: m)
  case Nil
  then show ?case by simp
next
  case (Cons e es)
  obtain k v where e: "e = (k, v)" by (cases e)
  have kv: "k = key v"
    using Cons.prems(3) [of e] by (simp add: e)
  have step: "fst q = key (snd q)" if "q \<in> set (AList.update k v m)" for q
  proof -
    from that set_update_subset [of k v m] have "q = (k, v) \<or> q \<in> set m" by auto
    then show ?thesis using kv Cons.prems(2) by auto
  qed
  have rest: "fst q = key (snd q)" if "q \<in> set es" for q
    using that Cons.prems(3) [of q] by simp
  from Cons.prems(1) have "p \<in> set (fold (\<lambda>(k, v) m. AList.update k v m) es (AList.update k v m))"
    by (simp add: e)
  then show ?case
    using step rest by (rule Cons.IH)
qed

lemma Map_values_keys_distinct:
  fixes key :: "'b \<Rightarrow> 'a"
  shows "distinct (map key (Map_values (map (\<lambda>item. (key item, item)) xs)))"
proof -
  let ?al = "fold (\<lambda>(k, v) m. AList.update k v m) (map (\<lambda>item. (key item, item)) xs) []"
  have keyed: "fst p = key (snd p)" if "p \<in> set ?al" for p
  proof (rule fold_update_keyed [where m = "[]" and key = key
        and es = "map (\<lambda>item. (key item, item)) xs"])
    fix q :: "'a \<times> 'b"
    assume "q \<in> set []"
    then show "fst q = key (snd q)" by simp
  next
    fix q
    assume "q \<in> set (map (\<lambda>item. (key item, item)) xs)"
    then obtain x where "q = (key x, x)" by auto
    then show "fst q = key (snd q)" by simp
  next
    show "p \<in> set ?al" by (rule that)
  qed
  then have eq: "map (key \<circ> snd) ?al = map fst ?al"
    by (intro map_cong) simp_all
  have "distinct (map fst ?al)"
    by (rule fold_update_keys_distinct) simp
  then have "distinct (map (key \<circ> snd) ?al)"
    by (simp only: eq)
  then show ?thesis
    by (simp add: Map_values_def)
qed

lemma loadParties_store_distinct_identifiers:
  "distinct (map room_id (parties (loadParties_store fmt xs s)))"
  using Map_values_keys_distinct [of room_id "map (convertToEscapeRoom fmt) xs"]
  by (simp add: loadParties_store_def)

lemma loadParties_distinct_identifiers:
  "distinct (map room_id (parties (loadParties_resume fmt res s)))"
proof (cases res)
  case Failed
  then show ?thesis by (simp add: loadParties_resume_def)
next
  case (Responded d)
  show ?thesis
  proof (cases d)
    case Absent
    with Responded show ?thesis by (simp add: loadParties_resume_def)
  next
    case (BareArray xs)
    with Responded show ?thesis
      by (simp add: loadParties_resume_def loadParties_store_distinct_identifiers)
  next
    case (PageObject c l)
    with Responded show ?thesis
      by (cases c) (simp_all add: loadParties_resume_def loadParties_store_distinct_identifiers)
  next
    case Scalar
    with Responded show ?thesis by (simp add: loadParties_resume_def)
  qed
qed

text \<open>
  C2, as the code has it. \<open>loadMoreDiaries\<close>, and both effects that call it, do nothing and
  issue no request when called from a render whose LoadState is Loading or Exhausted;
  \<open>loadParties\<close> does nothing and issues no request when called from a render that is
  loading (it does not look at \<open>hasMore\<close>). A call that passes its guard sets the loading
  flag and issues one request, and a further call from a render that has that state issues
  none, whatever the current state.
\<close>

theorem loader_guards:
  "(DiaryPage_LoadState r \<noteq> Idle \<longrightarrow>
      loadMoreDiaries_begin r s = (s, None)
      \<and> effect_inView v r s = (s, None)
      \<and> effect_diaries_length r s = (s, None))
   \<and> (parties_loading pr \<longrightarrow> loadParties_begin pr ps = (ps, None))
   \<and> (DiaryPage_LoadState r' = Idle \<longrightarrow>
      fst (loadMoreDiaries_begin r' s) = s\<lparr>loading := True\<rparr>
      \<and> snd (loadMoreDiaries_begin r' s) \<noteq> None
      \<and> loadMoreDiaries_begin (fst (loadMoreDiaries_begin r' s)) s' = (s', None))
   \<and> (\<not> parties_loading pr' \<longrightarrow>
      fst (loadParties_begin pr' ps) = ps\<lparr>parties_loading := True\<rparr>
      \<and> snd (loadParties_begin pr' ps) \<noteq> None
      \<and> loadParties_begin (fst (loadParties_begin pr' ps)) ps' = (ps', None))"
proof -
  have idle: "DiaryPage_LoadState x = Idle \<longleftrightarrow> \<not> loading x \<and> hasMore x" for x
    by (simp add: DiaryPage_LoadState_def loadState_def)
  have a: "loadMoreDiaries_begin r s = (s, None) \<and> effect_inView v r s = (s, None)
      \<and> effect_diaries_length r s = (s, None)"
    if "DiaryPage_LoadState r \<noteq> Idle"
    using that unfolding idle
    by (auto simp: loadMoreDiaries_begin_def effect_inView_def effect_diaries_length_def)
  have b: "loadParties_begin pr ps = (ps, None)" if "parties_loading pr"
    using that by (simp add: loadParties_begin_def)
  have c: "fst (loadMoreDiaries_begin r' s) = s\<lparr>loading := True\<rparr>
      \<and> snd (loadMoreDiaries_begin r' s) \<noteq> None
      \<and> loadMoreDiaries_begin (fst (loadMoreDiaries_begin r' s)) s' = (s', None)"
    if "DiaryPage_LoadState r' = Idle"
    using that unfolding idle by (simp add: loadMoreDiaries_begin_def)
  have d: "fst (loadParties_begin pr' ps) = ps\<lparr>parties_loading := True\<rparr>
      \<and> snd (loadParties_begin pr' ps) \<noteq> None
      \<and> loadParties_begin (fst (loadParties_begin pr' ps)) ps' = (ps', None)"
    if "\<not> parties_loading pr'"
    using that by (simp add: loadParties_begin_def)
  from a b c d show ?thesis by blast
qed

theorem loader_guards_witness:
  "DiaryPage_LoadState (DiaryPage_init\<lparr>hasMore := False\<rparr>) \<noteq> Idle
   \<and> loadMoreDiaries_begin (DiaryPage_init\<lparr>hasMore := False\<rparr>) DiaryPage_init = (DiaryPage_init, None)
   \<and> parties_loading (PartiesPage_init\<lparr>parties_loading := True\<rparr>)
   \<and> loadParties_begin (PartiesPage_init\<lparr>parties_loading := True\<rparr>) PartiesPage_init = (PartiesPage_init, None)
   \<and> DiaryPage_LoadState DiaryPage_init = Idle
   \<and> map_option req_page (snd (loadMoreDiaries_begin DiaryPage_init DiaryPage_init)) = Some 0
   \<and> loadMoreDiaries_begin (fst (loadMoreDiaries_begin DiaryPage_init DiaryPage_init))
        (fst (loadMoreDiaries_begin DiaryPage_init DiaryPage_init)) =
      (DiaryPage_init\<lparr>loading := True\<rparr>, None)
   \<and> \<not> parties_loading PartiesPage_init
   \<and> snd (loadParties_begin PartiesPage_init PartiesPage_init) =
        Some \<lparr>search_keyword = [], search_region = []\<rparr>
   \<and> loadParties_begin (fst (loadParties_begin PartiesPage_init PartiesPage_init))
        (fst (loadParties_begin PartiesPage_init PartiesPage_init)) =
      (PartiesPage_init\<lparr>parties_loading := True\<rparr>, None)"
proof -
  have h1: "DiaryPage_LoadState (DiaryPage_init\<lparr>hasMore := False\<rparr>) \<noteq> Idle"
    by (simp add: DiaryPage_LoadState_def loadState_def DiaryPage_init_def)
  have h2: "parties_loading (PartiesPage_init\<lparr>parties_loading := True\<rparr>)"
    by simp
  have h3: "DiaryPage_LoadState DiaryPage_init = Idle"
    by (simp add: DiaryPage_LoadState_def loadState_def DiaryPage_init_def)
  have h4: "\<not> parties_loading PartiesPage_init"
    by (simp add: PartiesPage_init_def)
  note t = loader_guards
    [where r = "DiaryPage_init\<lparr>hasMore := False\<rparr>" and s = DiaryPage_init
       and pr = "PartiesPage_init\<lparr>parties_loading := True\<rparr>" and ps = PartiesPage_init
       and r' = DiaryPage_init and s' = "DiaryPage_init\<lparr>loading := True\<rparr>"
       and pr' = PartiesPage_init and ps' = "PartiesPage_init\<lparr>parties_loading := True\<rparr>"]
  from t h1 have a: "loadMoreDiaries_begin (DiaryPage_init\<lparr>hasMore := False\<rparr>) DiaryPage_init = (DiaryPage_init, None)"
    by blast
  from t h2 have b: "loadParties_begin (PartiesPage_init\<lparr>parties_loading := True\<rparr>) PartiesPage_init = (PartiesPage_init, None)"
    by blast
  from t h3 have c: "fst (loadMoreDiaries_begin DiaryPage_init DiaryPage_init) = DiaryPage_init\<lparr>loading := True\<rparr>
      \<and> loadMoreDiaries_begin (fst (loadMoreDiaries_begin DiaryPage_init DiaryPage_init))
           (DiaryPage_init\<lparr>loading := True\<rparr>) = (DiaryPage_init\<lparr>loading := True\<rparr>, None)"
    by blast
  have c1: "fst (loadMoreDiaries_begin DiaryPage_init DiaryPage_init) = DiaryPage_init\<lparr>loading := True\<rparr>"
    using c by (rule conjunct1)
  have c2: "loadMoreDiaries_begin (fst (loadMoreDiaries_begin DiaryPage_init DiaryPage_init))
        (fst (loadMoreDiaries_begin DiaryPage_init DiaryPage_init)) =
      (DiaryPage_init\<lparr>loading := True\<rparr>, None)"
    using c [THEN conjunct2] by (simp only: c1)
  from t h4 have d: "fst (loadParties_begin PartiesPage_init PartiesPage_init) = PartiesPage_init\<lparr>parties_loading := True\<rparr>
      \<and> loadParties_begin (fst (loadParties_begin PartiesPage_init PartiesPage_init))
           (PartiesPage_init\<lparr>parties_loading := True\<rparr>) = (PartiesPage_init\<lparr>parties_loading := True\<rparr>, None)"
    by blast
  have d1: "fst (loadParties_begin PartiesPage_init PartiesPage_init) = PartiesPage_init\<lparr>parties_loading := True\<rparr>"
    using d by (rule conjunct1)
  have d2: "loadParties_begin (fst (loadParties_begin PartiesPage_init PartiesPage_init))
        (fst (loadParties_begin PartiesPage_init PartiesPage_init)) =
      (PartiesPage_init\<lparr>parties_loading := True\<rparr>, None)"
    using d [THEN conjunct2] by (simp only: d1)
  have q1: "map_option req_page (snd (loadMoreDiaries_begin DiaryPage_init DiaryPage_init)) = Some 0"
    by (simp add: loadMoreDiaries_begin_def DiaryPage_init_def)
  have q2: "snd (loadParties_begin PartiesPage_init PartiesPage_init) =
        Some \<lparr>search_keyword = [], search_region = []\<rparr>"
    by (simp add: loadParties_begin_def PartiesPage_init_def)
  from h1 a h2 b h3 q1 c2 h4 q2 d2 show ?thesis
    by (intro conjI)
qed

text \<open>
  C2 as stated fails for \<open>loadParties\<close>: in LoadState Exhausted it issues a request.
\<close>

theorem loadParties_exhausted_counterexample:
  "PartiesPage_LoadState exhausted_parties = Exhausted
   \<and> loadParties_begin exhausted_parties exhausted_parties =
       (exhausted_parties\<lparr>parties_loading := True\<rparr>,
        Some \<lparr>search_keyword = [], search_region = []\<rparr>)"
  by (simp add: exhausted_parties_def PartiesPage_init_def PartiesPage_LoadState_def
      loadState_def loadParties_begin_def)

text \<open>
  What the guard does not cover: it reads the flags of its render, so two calls of the
  loader of one and the same render both pass it, although the first has set \<open>loading\<close>
  in the current state. After a search on a list that has items, both the effect of the
  new render and the loader scheduled by \<open>handleSearch\<close> (the one of the old render, with
  the old cursor and keyword) issue a request.
\<close>

lemma loadMoreDiaries_same_render_twice:
  "map_option req_page (snd (loadMoreDiaries_begin DiaryPage_init DiaryPage_init)) = Some 0
   \<and> loading (fst (loadMoreDiaries_begin DiaryPage_init DiaryPage_init))
   \<and> map_option req_page (snd (loadMoreDiaries_begin DiaryPage_init
        (fst (loadMoreDiaries_begin DiaryPage_init DiaryPage_init)))) = Some 0"
  by (simp add: loadMoreDiaries_begin_def DiaryPage_init_def)

lemma handleSearch_two_requests:
  assumes old: "r = DiaryPage_init\<lparr>diaries := [convertApiToDiary (sample_api_diary 1)], page := 1\<rparr>"
    and new: "s = fst (handleSearch ''x'' r r)"
  shows "map_option (\<lambda>q. (req_page q, req_keyword q)) (snd (effect_diaries_length s s)) = Some (0, Some ''x'')"
    and "map_option (\<lambda>q. (req_page q, req_keyword q))
           (snd (loadMoreDiaries_begin r (fst (effect_diaries_length s s)))) = Some (1, None)"
  by (simp_all add: old new handleSearch_def effect_diaries_length_def loadMoreDiaries_begin_def
      DiaryPage_init_def or_undefined_def)

text \<open>
  C6, as the code has it. \<open>fetchDiaries\<close> and \<open>loadParties\<close> take the items from a bare
  array and from the \<open>content\<close> array of a page object alike (\<open>loadParties\<close> item for
  item when the identifiers differ). \<open>loadMoreDiaries\<close> takes them from a page object only:
  a bare array adds nothing and ends Exhausted. When \<open>data\<close> is in neither shape, every
  loader returns normally: \<open>loadMoreDiaries\<close> keeps its list (empty on the first page) and
  ends Exhausted, \<open>loadParties\<close> ends Exhausted with an empty list, and \<open>fetchDiaries\<close>
  ends with an empty list, not loading.
\<close>

theorem list_loaders_response_shapes:
  "my_diaries (fetchDiaries_resume (Responded (BareArray ms)) m) = ms
   \<and> my_diaries (fetchDiaries_resume (Responded (PageObject (ContentArray ms) l)) m) = ms
   \<and> (distinct (map (room_id \<circ> convertToEscapeRoom fmt) ps) \<longrightarrow>
        parties (loadParties_resume fmt (Responded (BareArray ps)) p) = map (convertToEscapeRoom fmt) ps
        \<and> parties (loadParties_resume fmt (Responded (PageObject (ContentArray ps) l)) p) =
            map (convertToEscapeRoom fmt) ps)
   \<and> diaries (loadMoreDiaries_resume (Responded (PageObject (ContentArray ds) l)) s) =
        diaries s @ map convertApiToDiary ds
   \<and> diaries (loadMoreDiaries_resume (Responded (BareArray ds)) s) = diaries s
   \<and> DiaryPage_LoadState (loadMoreDiaries_resume (Responded (BareArray ds)) s) = Exhausted
   \<and> (neither_shape d \<longrightarrow>
        DiaryPage_LoadState (loadMoreDiaries_resume (Responded d) s) = Exhausted
        \<and> diaries (loadMoreDiaries_resume (Responded d) s) = diaries s)
   \<and> (neither_shape e \<longrightarrow>
        PartiesPage_LoadState (loadParties_resume fmt (Responded e) p) = Exhausted
        \<and> parties (loadParties_resume fmt (Responded e) p) = [])
   \<and> (neither_shape f \<longrightarrow>
        my_diaries (fetchDiaries_resume (Responded f) m) = []
        \<and> \<not> my_loading (fetchDiaries_resume (Responded f) m))"
proof -
  have f1: "my_diaries (fetchDiaries_resume (Responded (BareArray ms)) m) = ms"
    and f2: "my_diaries (fetchDiaries_resume (Responded (PageObject (ContentArray ms) l)) m) = ms"
    by (simp_all add: fetchDiaries_resume_def)
  have p1: "parties (loadParties_resume fmt (Responded (BareArray ps)) p) = map (convertToEscapeRoom fmt) ps
        \<and> parties (loadParties_resume fmt (Responded (PageObject (ContentArray ps) l)) p) =
            map (convertToEscapeRoom fmt) ps"
    if dist: "distinct (map (room_id \<circ> convertToEscapeRoom fmt) ps)"
    using loadParties_store_distinct [OF dist]
    by (simp add: loadParties_resume_def Let_def split: option.splits)
  have d1: "diaries (loadMoreDiaries_resume (Responded (PageObject (ContentArray ds) l)) s) =
        diaries s @ map convertApiToDiary ds"
    by (simp add: loadMoreDiaries_resume_diaries page_items_def)
  have d2: "diaries (loadMoreDiaries_resume (Responded (BareArray ds)) s) = diaries s"
    by (simp add: loadMoreDiaries_resume_diaries page_items_def)
  have d3: "DiaryPage_LoadState (loadMoreDiaries_resume (Responded (BareArray ds)) s) = Exhausted"
    by (simp add: loadMoreDiaries_resume_def Let_def data_truthy_def content_of_def
        DiaryPage_LoadState_def loadState_def)
  have n1: "DiaryPage_LoadState (loadMoreDiaries_resume (Responded d) s) = Exhausted
        \<and> diaries (loadMoreDiaries_resume (Responded d) s) = diaries s"
    if "neither_shape d"
    using that
    by (cases d rule: payload.exhaust)
       (auto simp: neither_shape_def loadMoreDiaries_resume_def Let_def data_truthy_def
         content_of_def DiaryPage_LoadState_def loadState_def split: content_field.splits)
  have n2: "PartiesPage_LoadState (loadParties_resume fmt (Responded e) p) = Exhausted
        \<and> parties (loadParties_resume fmt (Responded e) p) = []"
    if "neither_shape e"
    using that
    by (cases e rule: payload.exhaust)
       (auto simp: neither_shape_def loadParties_resume_def Let_def
         PartiesPage_LoadState_def loadState_def split: content_field.splits)
  have n3: "my_diaries (fetchDiaries_resume (Responded f) m) = []
        \<and> \<not> my_loading (fetchDiaries_resume (Responded f) m)"
    if "neither_shape f"
    using that
    by (cases f rule: payload.exhaust)
       (auto simp: neither_shape_def fetchDiaries_resume_def Let_def split: content_field.splits)
  from f1 f2 p1 d1 d2 d3 n1 n2 n3 show ?thesis by blast
qed

theorem list_loaders_response_shapes_witness:
  "distinct (map (room_id \<circ> convertToEscapeRoom sample_formatting) [sample_party 1, sample_party 2])
   \<and> map room_id (parties (loadParties_resume sample_formatting
        (Responded (BareArray [sample_party 1, sample_party 2])) PartiesPage_init)) = [Some ''1'', Some ''2'']
   \<and> map room_id (parties (loadParties_resume sample_formatting
        (Responded (PageObject (ContentArray [sample_party 1, sample_party 2]) (Some True))) PartiesPage_init))
       = [Some ''1'', Some ''2'']
   \<and> neither_shape (Absent :: DiaryApiResponse payload)
   \<and> DiaryPage_LoadState (loadMoreDiaries_resume (Responded Absent) DiaryPage_init) = Exhausted
   \<and> diaries (loadMoreDiaries_resume (Responded Absent) DiaryPage_init) = []
   \<and> neither_shape (PageObject ContentOther None :: PartyMainResponse payload)
   \<and> PartiesPage_LoadState (loadParties_resume sample_formatting (Responded (PageObject ContentOther None)) PartiesPage_init) = Exhausted
   \<and> neither_shape (Scalar :: MyDiary payload)
   \<and> my_diaries (fetchDiaries_resume (Responded Scalar) MyDiaryPage_init) = []"
proof -
  have ids: "map (room_id \<circ> convertToEscapeRoom sample_formatting) [sample_party 1, sample_party 2] = [Some ''1'', Some ''2'']"
    by code_simp
  have h1: "distinct (map (room_id \<circ> convertToEscapeRoom sample_formatting) [sample_party 1, sample_party 2])"
    unfolding ids by simp
  have h2: "neither_shape (Absent :: DiaryApiResponse payload)"
    and h3: "neither_shape (PageObject ContentOther None :: PartyMainResponse payload)"
    and h4: "neither_shape (Scalar :: MyDiary payload)"
    by (simp_all add: neither_shape_def)
  note t = list_loaders_response_shapes
    [where fmt = sample_formatting and ps = "[sample_party 1, sample_party 2]" and l = "Some True"
       and p = PartiesPage_init and d = Absent and s = DiaryPage_init
       and e = "PageObject ContentOther None" and f = Scalar and m = MyDiaryPage_init]
  from t h1 have a: "parties (loadParties_resume sample_formatting (Responded (BareArray [sample_party 1, sample_party 2])) PartiesPage_init)
        = map (convertToEscapeRoom sample_formatting) [sample_party 1, sample_party 2]
     \<and> parties (loadParties_resume sample_formatting
        (Responded (PageObject (ContentArray [sample_party 1, sample_party 2]) (Some True))) PartiesPage_init)
        = map (convertToEscapeRoom sample_formatting) [sample_party 1, sample_party 2]"
    by blast
  from t h2 have b: "DiaryPage_LoadState (loadMoreDiaries_resume (Responded Absent) DiaryPage_init) = Exhausted
     \<and> diaries (loadMoreDiaries_resume (Responded Absent) DiaryPage_init) = diaries DiaryPage_init"
    by blast
  from t h3 have c: "PartiesPage_LoadState (loadParties_resume sample_formatting (Responded (PageObject ContentOther None)) PartiesPage_init) = Exhausted"
    by blast
  from t h4 have d: "my_diaries (fetchDiaries_resume (Responded Scalar) MyDiaryPage_init) = []"
    by blast
  have e: "diaries DiaryPage_init = []"
    by (simp add: DiaryPage_init_def)
  from ids have ids': "map room_id (map (convertToEscapeRoom sample_formatting) [sample_party 1, sample_party 2]) = [Some ''1'', Some ''2'']"
    by simp
  from h1 a ids' h2 b e h3 c h4 d show ?thesis
    by simp
qed

text \<open>
  C6 as stated fails for \<open>loadMoreDiaries\<close>: the item of a bare array never reaches the
  list.
\<close>

theorem loadMoreDiaries_bare_array_counterexample:
  "diaries (loadMoreDiaries_resume (Responded (BareArray [sample_api_diary 1])) DiaryPage_init) = []
   \<and> page (loadMoreDiaries_resume (Responded (BareArray [sample_api_diary 1])) DiaryPage_init) = 0
   \<and> DiaryPage_LoadState (loadMoreDiaries_resume (Responded (BareArray [sample_api_diary 1])) DiaryPage_init) = Exhausted"
  by (simp add: loadMoreDiaries_resume_def Let_def data_truthy_def content_of_def
      DiaryPage_LoadState_def loadState_def DiaryPage_init_def)

section \<open>Properties of the party creation form\<close>

lemma themeId_rejected_iff:
  "themeId_rejected n \<longleftrightarrow> (case n of NaN \<Rightarrow> True | NegInf \<Rightarrow> True | Num x \<Rightarrow> \<not> 0 < x | PosInf \<Rightarrow> False)"
  by (auto simp: themeId_rejected_def split: jsnum.splits)

lemma submit_rejected_simps:
  "snd (submit_rejected msg s) = None"
  "error (fst (submit_rejected msg s)) = Some msg"
  "isSubmitting (fst (submit_rejected msg s)) = False"
  "formData (fst (submit_rejected msg s)) = formData s"
  "isThemeSearchModalOpen (fst (submit_rejected msg s)) = isThemeSearchModalOpen s"
  "isTimePickerModalOpen (fst (submit_rejected msg s)) = isTimePickerModalOpen s"
  by (simp_all add: submit_rejected_def)

text \<open>
  C8, as the code has it. The POST is withheld exactly when the theme identifier is not
  strictly positive, or the needed participants exceed the total as \<open>parseInt\<close> reads the
  two fields (\<open>>\<close> on the two numbers read, false when one of them is \<open>NaN\<close>), or date
  and time do not parse, or the scheduled time is not strictly after now. In each of these
  cases the handler stores one of its four messages and is no longer submitting. The form
  and the two modal flags are never written.
\<close>

theorem handleSubmit_validation:
  "(snd (handleSubmit_begin env r s) = None) =
     ((case form_themeId (formData r) of
         NaN \<Rightarrow> True | NegInf \<Rightarrow> True | Num x \<Rightarrow> \<not> 0 < x | PosInf \<Rightarrow> False)
      \<or> js_gt (parseInt10 env (form_participantsNeeded (formData r)))
              (parseInt10 env (form_totalParticipants (formData r)))
      \<or> Date_parse env (form_date (formData r) @ ''T'' @ form_time (formData r)) = None
      \<or> (\<exists>t. Date_parse env (form_date (formData r) @ ''T'' @ form_time (formData r)) = Some t
              \<and> \<not> Date_now env < t))
   \<and> (parseInt10 env (form_participantsNeeded (formData r)) = Num a
        \<and> parseInt10 env (form_totalParticipants (formData r)) = Num b \<and> b < a \<longrightarrow>
        snd (handleSubmit_begin env r s) = None)
   \<and> (snd (handleSubmit_begin env r s) = None \<longrightarrow>
        error (fst (handleSubmit_begin env r s)) \<in> {Some msg_theme, Some msg_participants, Some msg_datetime, Some msg_future}
        \<and> \<not> isSubmitting (fst (handleSubmit_begin env r s)))
   \<and> formData (fst (handleSubmit_begin env r s)) = formData s
   \<and> isThemeSearchModalOpen (fst (handleSubmit_begin env r s)) = isThemeSearchModalOpen s
   \<and> isTimePickerModalOpen (fst (handleSubmit_begin env r s)) = isTimePickerModalOpen s"
proof -
  let ?d = "Date_parse env (form_date (formData r) @ ''T'' @ form_time (formData r))"
  let ?gt = "js_gt (parseInt10 env (form_participantsNeeded (formData r)))
              (parseInt10 env (form_totalParticipants (formData r)))"
  have sent: "(snd (handleSubmit_begin env r s) = None) =
     (themeId_rejected (form_themeId (formData r)) \<or> ?gt
      \<or> ?d = None \<or> (\<exists>t. ?d = Some t \<and> \<not> Date_now env < t))"
    by (auto simp: handleSubmit_begin_def Let_def submit_rejected_simps split: option.splits)
  have finite: "snd (handleSubmit_begin env r s) = None"
    if "parseInt10 env (form_participantsNeeded (formData r)) = Num a
        \<and> parseInt10 env (form_totalParticipants (formData r)) = Num b \<and> b < a"
  proof -
    from that have ?gt by simp
    then show ?thesis unfolding sent by blast
  qed
  have rejected: "error (fst (handleSubmit_begin env r s)) \<in> {Some msg_theme, Some msg_participants, Some msg_datetime, Some msg_future}
        \<and> \<not> isSubmitting (fst (handleSubmit_begin env r s))"
    if "snd (handleSubmit_begin env r s) = None"
    using that
    by (auto simp: handleSubmit_begin_def Let_def submit_rejected_simps split: option.splits if_splits)
  have frame: "formData (fst (handleSubmit_begin env r s)) = formData s"
    "isThemeSearchModalOpen (fst (handleSubmit_begin env r s)) = isThemeSearchModalOpen s"
    "isTimePickerModalOpen (fst (handleSubmit_begin env r s)) = isTimePickerModalOpen s"
    by (auto simp: handleSubmit_begin_def Let_def submit_rejected_simps split: option.splits)
  from sent have sent': "(snd (handleSubmit_begin env r s) = None) =
     ((case form_themeId (formData r) of
         NaN \<Rightarrow> True | NegInf \<Rightarrow> True | Num x \<Rightarrow> \<not> 0 < x | PosInf \<Rightarrow> False)
      \<or> ?gt \<or> ?d = None \<or> (\<exists>t. ?d = Some t \<and> \<not> Date_now env < t))"
    unfolding themeId_rejected_iff .
  from sent' finite rejected frame show ?thesis
    by (intro conjI impI) auto
qed

theorem handleSubmit_validation_witness:
  "parseInt10 sample_platform (form_participantsNeeded (formData (sample_create (sample_form\<lparr>form_participantsNeeded := ''5''\<rparr>)))) = Num 5
   \<and> parseInt10 sample_platform (form_totalParticipants (formData (sample_create (sample_form\<lparr>form_participantsNeeded := ''5''\<rparr>)))) = Num 4
   \<and> (4 :: rat) < 5
   \<and> snd (handleSubmit_begin sample_platform
      (sample_create (sample_form\<lparr>form_participantsNeeded := ''5''\<rparr>)) (sample_create sample_form)) = None
   \<and> error (fst (handleSubmit_begin sample_platform
      (sample_create (sample_form\<lparr>form_participantsNeeded := ''5''\<rparr>)) (sample_create sample_form)))
      \<in> {Some msg_theme, Some msg_participants, Some msg_datetime, Some msg_future}
   \<and> \<not> isSubmitting (fst (handleSubmit_begin sample_platform
      (sample_create (sample_form\<lparr>form_participantsNeeded := ''5''\<rparr>)) (sample_create sample_form)))
   \<and> formData (fst (handleSubmit_begin sample_platform
      (sample_create (sample_form\<lparr>form_participantsNeeded := ''5''\<rparr>)) (sample_create sample_form))) = sample_form
   \<and> snd (handleSubmit_begin sample_platform (sample_create sample_form) (sample_create sample_form)) \<noteq> None"
proof -
  have p: "parseInt10 sample_platform (form_participantsNeeded (formData (sample_create (sample_form\<lparr>form_participantsNeeded := ''5''\<rparr>)))) = Num 5
     \<and> parseInt10 sample_platform (form_totalParticipants (formData (sample_create (sample_form\<lparr>form_participantsNeeded := ''5''\<rparr>)))) = Num 4
     \<and> (4 :: rat) < 5"
    by (simp add: sample_platform_def sample_create_def sample_form_def)
  have ok: "snd (handleSubmit_begin sample_platform (sample_create sample_form) (sample_create sample_form)) \<noteq> None"
    by (simp add: handleSubmit_begin_def sample_platform_def sample_create_def sample_form_def
        themeId_rejected_def Let_def)
  note t = handleSubmit_validation
    [of sample_platform "sample_create (sample_form\<lparr>form_participantsNeeded := ''5''\<rparr>)"
        "sample_create sample_form" 5 4]
  have h: "snd (handleSubmit_begin sample_platform
      (sample_create (sample_form\<lparr>form_participantsNeeded := ''5''\<rparr>)) (sample_create sample_form)) = None"
    using t [THEN conjunct2, THEN conjunct1, THEN mp, OF p] .
  have a: "error (fst (handleSubmit_begin sample_platform
      (sample_create (sample_form\<lparr>form_participantsNeeded := ''5''\<rparr>)) (sample_create sample_form)))
      \<in> {Some msg_theme, Some msg_participants, Some msg_datetime, Some msg_future}
   \<and> \<not> isSubmitting (fst (handleSubmit_begin sample_platform
      (sample_create (sample_form\<lparr>form_participantsNeeded := ''5''\<rparr>)) (sample_create sample_form)))"
    using t [THEN conjunct2, THEN conjunct2, THEN conjunct1, THEN mp, OF h] .
  have b: "formData (fst (handleSubmit_begin sample_platform
      (sample_create (sample_form\<lparr>form_participantsNeeded := ''5''\<rparr>)) (sample_create sample_form))) = sample_form"
    using t [THEN conjunct2, THEN conjunct2, THEN conjunct2, THEN conjunct1] by (simp add: sample_create_def)
  from p h a b ok show ?thesis by (intro conjI) simp_all
qed

text \<open>
  C8 as stated fails. The fields are compared as \<open>parseInt\<close> reads them, not as the numbers
  entered: with 9007199254740993 needed and 9007199254740992 in total, both read as
  \<open>2 ^ 53\<close>, and with \<open>1e3\<close> needed and 5 in total, read as 1 and 5, the needed
  participants exceed the total and the POST is sent all the same.
\<close>

theorem handleSubmit_sends_counterexample:
  "decimal_value ''9007199254740992'' < decimal_value ''9007199254740993''
   \<and> map_option (\<lambda>q. (pr_participantsNeeded q, pr_totalParticipants q))
        (snd (handleSubmit_begin sample_platform
          (sample_create (sample_form\<lparr>form_participantsNeeded := ''9007199254740993'',
                                        form_totalParticipants := ''9007199254740992''\<rparr>))
          (sample_create (sample_form\<lparr>form_participantsNeeded := ''9007199254740993'',
                                        form_totalParticipants := ''9007199254740992''\<rparr>))))
      = Some (Num 9007199254740992, Num 9007199254740992)
   \<and> map_option (\<lambda>q. (pr_participantsNeeded q, pr_totalParticipants q))
        (snd (handleSubmit_begin sample_platform
          (sample_create (sample_form\<lparr>form_participantsNeeded := ''1e3'', form_totalParticipants := ''5''\<rparr>))
          (sample_create (sample_form\<lparr>form_participantsNeeded := ''1e3'', form_totalParticipants := ''5''\<rparr>))))
      = Some (Num 1, Num 5)"
proof -
  have more: "decimal_value ''9007199254740992'' < decimal_value ''9007199254740993''"
    by (simp add: decimal_value_def)
  have sent: "map_option (\<lambda>q. (pr_participantsNeeded q, pr_totalParticipants q))
        (snd (handleSubmit_begin sample_platform
          (sample_create (sample_form\<lparr>form_participantsNeeded := ''9007199254740993'',
                                        form_totalParticipants := ''9007199254740992''\<rparr>))
          (sample_create (sample_form\<lparr>form_participantsNeeded := ''9007199254740993'',
                                        form_totalParticipants := ''9007199254740992''\<rparr>))))
      = Some (Num 9007199254740992, Num 9007199254740992)"
    by (simp add: handleSubmit_begin_def sample_platform_def sample_create_def sample_form_def
        themeId_rejected_def Let_def)
  have sent': "map_option (\<lambda>q. (pr_participantsNeeded q, pr_totalParticipants q))
        (snd (handleSubmit_begin sample_platform
          (sample_create (sample_form\<lparr>form_participantsNeeded := ''1e3'', form_totalParticipants := ''5''\<rparr>))
          (sample_create (sample_form\<lparr>form_participantsNeeded := ''1e3'', form_totalParticipants := ''5''\<rparr>))))
      = Some (Num 1, Num 5)"
    by (simp add: handleSubmit_begin_def sample_platform_def sample_create_def sample_form_def
        themeId_rejected_def Let_def)
  from more sent sent' show ?thesis by (intro conjI)
qed

end
